theory Spec2Isabelle
  imports Complex_Main
begin

section \<open>JavaScript values, numbers and strings\<close>

text \<open>
  The controller is TypeScript running on a JavaScript engine.  A JavaScript string is
  modelled as a \<open>string\<close> whose characters are its code units; only code units below 256
  are representable, which covers every character the code under study inspects.
  A JavaScript number is an IEEE binary64 value: \<open>NaN\<close>, an infinity, or a finite
  value given by the rational it denotes (the two zeros are identified: the code never
  tells them apart).
\<close>

datatype jsnum = NaN | PosInfinity | NegInfinity | Finite rat

text \<open>The relational operator \<open><\<close> on numbers: every comparison with \<open>NaN\<close> is false.\<close>

fun js_less :: "jsnum \<Rightarrow> jsnum \<Rightarrow> bool" where
  "js_less NaN _ = False"
| "js_less _ NaN = False"
| "js_less (Finite a) (Finite b) = (a < b)"
| "js_less PosInfinity _ = False"
| "js_less _ PosInfinity = True"
| "js_less _ NegInfinity = False"
| "js_less NegInfinity _ = True"

text \<open>\<open>Number.isInteger\<close>: finite and without fractional part.\<close>

fun Number_isInteger :: "jsnum \<Rightarrow> bool" where
  "Number_isInteger (Finite r) = (of_int \<lfloor>r\<rfloor> = r)"
| "Number_isInteger _ = False"

text \<open>A value of type \<open>unknown\<close>, as far as the code inspects it.\<close>

datatype js =
    Undefined
  | Null
  | Bool bool
  | Num jsnum
  | Str string
  | Arr "js list"
  | Obj "(string \<times> js) list"

text \<open>Truthiness, as tested by \<open>!str\<close> and \<open>blockNumber && ...\<close>.\<close>

fun truthy :: "js \<Rightarrow> bool" where
  "truthy Undefined = False"
| "truthy Null = False"
| "truthy (Bool b) = b"
| "truthy (Num n) = (n \<noteq> NaN \<and> n \<noteq> Finite 0)"
| "truthy (Str s) = (s \<noteq> [])"
| "truthy (Arr _) = True"
| "truthy (Obj _) = True"

subsection \<open>Rounding a rational to binary64\<close>

text \<open>\<open>bitLength n\<close> is the number of binary digits of \<open>n\<close>.\<close>

function bitLength :: "int \<Rightarrow> int" where
  "bitLength n = (if n \<le> 0 then 0 else 1 + bitLength (n div 2))"
  by pat_completeness auto
termination
  by (relation "measure nat") auto

declare bitLength.simps [simp del]

definition pow2 :: "int \<Rightarrow> rat" where
  "pow2 k = (if 0 \<le> k then 2 ^ nat k else 1 / 2 ^ nat (- k))"

text \<open>For \<open>a > 0\<close>: the exponent \<open>e\<close> with \<open>2 ^ e \<le> a < 2 ^ (e + 1)\<close>.\<close>

definition floorLog2 :: "rat \<Rightarrow> int" where
  "floorLog2 a =
     (let (p, q) = quotient_of a;
          d = bitLength p - bitLength q
      in if pow2 d \<le> a then d else d - 1)"

text \<open>Round to the nearest integer, ties to the even one.\<close>

definition roundHalfEven :: "rat \<Rightarrow> int" where
  "roundHalfEven q =
     (let f = \<lfloor>q\<rfloor>; r = q - of_int f
      in if r < 1 / 2 then f
         else if 1 / 2 < r then f + 1
         else if even f then f else f + 1)"

text \<open>
  The binary64 value nearest to a rational: 53 significant bits, exponents from
  \<open>-1022\<close> (below that the spacing stays \<open>2 ^ -1074\<close>), overflow to an infinity.
\<close>

definition toDouble :: "rat \<Rightarrow> jsnum" where
  "toDouble r =
     (if r = 0 then Finite 0
      else
        let a = \<bar>r\<bar>;
            e = max (floorLog2 a) (- 1022);
            ulp = pow2 (e - 52);
            d = of_int (roundHalfEven (a / ulp)) * ulp
        in if pow2 1024 \<le> d then (if r < 0 then NegInfinity else PosInfinity)
           else Finite (if r < 0 then - d else d))"

subsection \<open>\<open>Number(string)\<close>\<close>

text \<open>
  The conversion \<open>StringToNumber\<close> of ECMAScript: white space is stripped at both ends;
  the empty text is \<open>0\<close>; the rest must be a \<open>StrNumericLiteral\<close>, that is a binary,
  octal or hexadecimal integer literal (\<open>0b\<close>, \<open>0o\<close>, \<open>0x\<close>, unsigned), or an
  optionally signed \<open>Infinity\<close> or decimal literal with optional fraction and exponent;
  anything else is \<open>NaN\<close>.  The mathematical value is rounded to binary64.
\<close>

definition isStrWhiteSpaceChar :: "char \<Rightarrow> bool" where
  "isStrWhiteSpaceChar c = (of_char c \<in> {9, 10, 11, 12, 13, 32, 160 :: nat})"

definition trimString :: "string \<Rightarrow> string" where
  "trimString s = rev (dropWhile isStrWhiteSpaceChar (rev (dropWhile isStrWhiteSpaceChar s)))"

text \<open>The value of a digit character in a base up to 16, if it has one.\<close>

definition digitValue :: "char \<Rightarrow> nat option" where
  "digitValue c =
     (let n = of_char c :: nat
      in if 48 \<le> n \<and> n \<le> 57 then Some (n - 48)
         else if 97 \<le> n \<and> n \<le> 102 then Some (n - 87)
         else if 65 \<le> n \<and> n \<le> 70 then Some (n - 55)
         else None)"

definition isDigitOf :: "nat \<Rightarrow> char \<Rightarrow> bool" where
  "isDigitOf b c = (case digitValue c of None \<Rightarrow> False | Some v \<Rightarrow> v < b)"

text \<open>The number written by a list of digits in base \<open>b\<close>, most significant first.\<close>

definition digitsValue :: "nat \<Rightarrow> string \<Rightarrow> int" where
  "digitsValue b ds =
     foldl (\<lambda>acc c. acc * int b + (case digitValue c of None \<Rightarrow> 0 | Some v \<Rightarrow> int v)) 0 ds"

definition nonDecimalLiteral :: "nat \<Rightarrow> string \<Rightarrow> jsnum" where
  "nonDecimalLiteral b ds =
     (if ds \<noteq> [] \<and> list_all (isDigitOf b) ds then toDouble (of_int (digitsValue b ds)) else NaN)"

text \<open>
  \<open>ExponentPart\<close>: nothing, or \<open>e\<close>/\<open>E\<close>, an optional sign and at least one decimal
  digit, up to the end of the text.  \<open>None\<close> when the text is neither.
\<close>

definition exponentPart :: "string \<Rightarrow> int option" where
  "exponentPart t =
     (case t of
        [] \<Rightarrow> Some 0
      | c # u \<Rightarrow>
          if c = CHR ''e'' \<or> c = CHR ''E'' then
            (let (neg, ds) =
                   (case u of
                      [] \<Rightarrow> (False, [])
                    | s # v \<Rightarrow> if s = CHR ''-'' then (True, v)
                               else if s = CHR ''+'' then (False, v) else (False, u))
             in if ds \<noteq> [] \<and> list_all (isDigitOf 10) ds
                then Some (if neg then - digitsValue 10 ds else digitsValue 10 ds)
                else None)
          else None)"

text \<open>\<open>StrUnsignedDecimalLiteral\<close> other than \<open>Infinity\<close>: its exact value.\<close>

definition unsignedDecimal :: "string \<Rightarrow> rat option" where
  "unsignedDecimal t =
     (let ip = takeWhile (isDigitOf 10) t;
          t1 = dropWhile (isDigitOf 10) t;
          (fp, t2) = (case t1 of
                        [] \<Rightarrow> ([], t1)
                      | c # u \<Rightarrow> if c = CHR ''.''
                                 then (takeWhile (isDigitOf 10) u, dropWhile (isDigitOf 10) u)
                                 else ([], t1))
      in if ip = [] \<and> fp = [] then None
         else case exponentPart t2 of
                None \<Rightarrow> None
              | Some ex \<Rightarrow>
                  Some (of_int (digitsValue 10 (ip @ fp)) *
                        (let k = ex - int (length fp)
                         in if 0 \<le> k then 10 ^ nat k else 1 / 10 ^ nat (- k))))"

definition strDecimalLiteral :: "string \<Rightarrow> jsnum" where
  "strDecimalLiteral t =
     (let (neg, u) =
            (case t of
               [] \<Rightarrow> (False, t)
             | c # v \<Rightarrow> if c = CHR ''-'' then (True, v)
                        else if c = CHR ''+'' then (False, v) else (False, t))
      in if u = ''Infinity'' then (if neg then NegInfinity else PosInfinity)
         else case unsignedDecimal u of
                None \<Rightarrow> NaN
              | Some v \<Rightarrow> toDouble (if neg then - v else v))"

definition Number :: "string \<Rightarrow> jsnum" where
  "Number s =
     (let t = trimString s
      in if t = [] then Finite 0
         else if take 2 t = ''0x'' \<or> take 2 t = ''0X'' then nonDecimalLiteral 16 (drop 2 t)
         else if take 2 t = ''0o'' \<or> take 2 t = ''0O'' then nonDecimalLiteral 8 (drop 2 t)
         else if take 2 t = ''0b'' \<or> take 2 t = ''0B'' then nonDecimalLiteral 2 (drop 2 t)
         else strDecimalLiteral t)"

subsection \<open>Decimal rendering\<close>

text \<open>\<open>toString()\<close> of a non-negative integer, and of any integer.\<close>

definition digitChar :: "nat \<Rightarrow> char" where
  "digitChar d = ''0123456789'' ! d"

function decimalString :: "nat \<Rightarrow> string" where
  "decimalString n =
     (if n < 10 then [digitChar n]
      else decimalString (n div 10) @ [digitChar (n mod 10)])"
  by pat_completeness auto
termination
  by (relation "measure id") auto

declare decimalString.simps [simp del]

definition intString :: "int \<Rightarrow> string" where
  "intString i = (if i < 0 then CHR ''-'' # decimalString (nat (- i)) else decimalString (nat i))"

section \<open>Errors and the chain client\<close>

text \<open>
  A value that is thrown, or with which a promise rejects: an instance of the class
  \<open>HttpError\<close> of the library http-errors, with its status and message, or any other
  value.  \<open>BadRequest\<close> is the client-input error (status 400), \<open>InternalServerError\<close>
  the internal one (status 500).
\<close>

datatype thrown = HttpError nat string | Thrown js

definition BadRequest :: "string \<Rightarrow> thrown" where
  "BadRequest msg = HttpError 400 msg"

definition InternalServerError :: "string \<Rightarrow> thrown" where
  "InternalServerError msg = HttpError 500 msg"

fun instanceofHttpError :: "thrown \<Rightarrow> bool" where
  "instanceofHttpError (HttpError _ _) = True"
| "instanceofHttpError (Thrown _) = False"

text \<open>
  The chain client is an external collaborator.  Each of its calls either yields a value
  or rejects with a value of its own making, which is never an \<open>HttpError\<close> instance.
  \<open>createType('BlockHash', s)\<close> wraps the text it is given.  The number of a header is
  a block number, an unsigned integer that \<open>toNumber()\<close> reads exactly.  The functions
  below return, next to their result, the calls they made to the client, in order.
\<close>

datatype blockHash = BlockHash string

record api =
  getBlockHash :: "jsnum \<Rightarrow> js + blockHash"
  getHeader :: "js + nat"
  getFinalizedHead :: "js + blockHash"

datatype call = GetBlockHash jsnum | GetHeader | GetFinalizedHead

text \<open>
  \<open>isHex\<close> of the library @polkadot/util with its default arguments: the text \<open>0x\<close>, or
  \<open>0x\<close> followed by hexadecimal digits, of even length.
\<close>

definition isHex :: "string \<Rightarrow> bool" where
  "isHex v =
     ((v = ''0x'' \<or> (take 2 v = ''0x'' \<and> drop 2 v \<noteq> [] \<and> list_all (isDigitOf 16) (drop 2 v)))
      \<and> even (length v))"

section \<open>AbstractController\<close>

definition parseNumberOrThrow :: "string \<Rightarrow> string \<Rightarrow> thrown + jsnum" where
  "parseNumberOrThrow n errorMessage =
     (let num = Number n
      in if \<not> Number_isInteger num \<or> js_less num (Finite 0) then Inl (BadRequest errorMessage)
         else Inr num)"

text \<open>
  The outer \<open>try\<close> block of \<open>getHashForBlock\<close>: its completion, the variable
  \<open>blockNumber\<close> (\<open>None\<close> while unassigned) and the client calls made.
\<close>

definition getHashForBlock_try :: "api \<Rightarrow> string \<Rightarrow> (thrown + blockHash) \<times> jsnum option \<times> call list" where
  "getHashForBlock_try api blockId =
     (let isHexStr = isHex blockId
      in if isHexStr \<and> length blockId = 66 then (Inr (BlockHash blockId), None, [])
         else if isHexStr then
           (Inl (BadRequest (''Cannot get block hash for '' @ blockId @ ''. '' @
                   ''Hex string block IDs must be 32-bytes (66-characters) in length.'')),
            None, [])
         else if take 2 blockId = ''0x'' then
           (Inl (BadRequest (''Cannot get block hash for '' @ blockId @ ''. '' @
                   ''Hex string block IDs must be a valid hex string '' @
                   ''and must be 32-bytes (66-characters) in length.'')),
            None, [])
         else
           case parseNumberOrThrow blockId ''Invalid block number'' of
             Inl err \<Rightarrow>
               (Inl (BadRequest (''Cannot get block hash for '' @ blockId @ ''. '' @
                       ''Block IDs must be either 32-byte hex strings or non-negative decimal integers.'')),
                None, [])
           | Inr blockNumber \<Rightarrow>
               (case getBlockHash api blockNumber of
                  Inl err \<Rightarrow> (Inl (Thrown err), Some blockNumber, [GetBlockHash blockNumber])
                | Inr h \<Rightarrow> (Inr h, Some blockNumber, [GetBlockHash blockNumber])))"

text \<open>
  The \<open>catch\<close> block.  \<open>isBasicLegacyError\<close> is the guard of \<open>../types/errors\<close>, which
  is not among the sources: it is a parameter.
\<close>

definition getHashForBlock_catch ::
  "(thrown \<Rightarrow> bool) \<Rightarrow> api \<Rightarrow> string \<Rightarrow> jsnum option \<Rightarrow> thrown \<Rightarrow> (thrown + blockHash) \<times> call list" where
  "getHashForBlock_catch isBasicLegacyError api blockId blockNumber err =
     (if instanceofHttpError err then (Inl err, [])
      else
        case getHeader api of
          Inl _ \<Rightarrow> (Inl (InternalServerError ''Failed while trying to get the latest header.''), [GetHeader])
        | Inr number \<Rightarrow>
            if (case blockNumber of
                  None \<Rightarrow> False
                | Some b \<Rightarrow> truthy (Num b) \<and> js_less (Finite (of_nat number)) b)
            then
              (Inl (BadRequest (''Specified block number is larger than the current largest block. '' @
                      ''The largest known block number is '' @ decimalString number @ ''.'')),
               [GetHeader])
            else if isBasicLegacyError err then (Inl err, [GetHeader])
            else (Inl (InternalServerError (''Cannot get block hash for '' @ blockId @ ''.'')), [GetHeader]))"

definition getHashForBlock ::
  "(thrown \<Rightarrow> bool) \<Rightarrow> api \<Rightarrow> string \<Rightarrow> (thrown + blockHash) \<times> call list" where
  "getHashForBlock isBasicLegacyError api blockId =
     (case getHashForBlock_try api blockId of
        (Inr h, blockNumber, cs) \<Rightarrow> (Inr h, cs)
      | (Inl err, blockNumber, cs) \<Rightarrow>
          (case getHashForBlock_catch isBasicLegacyError api blockId blockNumber err of
             (r, cs') \<Rightarrow> (r, cs @ cs')))"

definition verifyAndCastOr :: "string \<Rightarrow> js \<Rightarrow> jsnum option \<Rightarrow> thrown + jsnum option" where
  "verifyAndCastOr name str or' =
     (if \<not> truthy str then Inr or'
      else
        case str of
          Str s \<Rightarrow>
            (case parseNumberOrThrow s (name @ '' query param is an invalid number'') of
               Inl err \<Rightarrow> Inl err
             | Inr num \<Rightarrow> Inr (Some num))
        | _ \<Rightarrow> Inl (BadRequest (''Incorrect argument quantity or type passed in for '' @ name @ '' query param'')))"

definition getHashFromAt ::
  "(thrown \<Rightarrow> bool) \<Rightarrow> api \<Rightarrow> js \<Rightarrow> (thrown + blockHash) \<times> call list" where
  "getHashFromAt isBasicLegacyError api at' =
     (case at' of
        Str s \<Rightarrow> getHashForBlock isBasicLegacyError api s
      | _ \<Rightarrow> (case getFinalizedHead api of
                Inl err \<Rightarrow> (Inl (Thrown err), [GetFinalizedHead])
              | Inr h \<Rightarrow> (Inr h, [GetFinalizedHead])))"

text \<open>The classification of a failed result by its HTTP status.\<close>

fun isInputError :: "thrown + 'a \<Rightarrow> bool" where
  "isInputError (Inl (HttpError st _)) = (st = 400)"
| "isInputError _ = False"

fun isInternalError :: "thrown + 'a \<Rightarrow> bool" where
  "isInternalError (Inl (HttpError st _)) = (st = 500)"
| "isInternalError _ = False"

section \<open>Handlers, the guard \<open>catchWrap\<close> and the transaction-error middleware\<close>

text \<open>
  The Express response, as far as the code touches it, and the state of one request:
  the response and the errors handed to \<open>next\<close> so far, oldest first.
\<close>

record response =
  headersSent :: bool
  statusCode :: nat
  body :: "js option"

record exchange =
  res :: response
  nextCalls :: "thrown list"

definition status :: "nat \<Rightarrow> response \<Rightarrow> response" where
  "status code r = r\<lparr>statusCode := code\<rparr>"

definition send :: "js \<Rightarrow> response \<Rightarrow> response" where
  "send b r = r\<lparr>body := Some b, headersSent := True\<rparr>"

text \<open>
  \<open>next(err)\<close>: the error goes to the following error middleware.  The function is
  Express's own; it returns normally.
\<close>

definition next_call :: "thrown \<Rightarrow> exchange \<Rightarrow> exchange" where
  "next_call err x = x\<lparr>nextCalls := nextCalls x @ [err]\<rparr>"

text \<open>
  A request handler runs on the state of the request and completes in one of five ways:
  it returns a plain value, throws, or returns a promise that is fulfilled, is rejected,
  or never settles.
\<close>

datatype completion = Returned | Threw thrown | Fulfilled | Rejected thrown | Pending

type_synonym 'req handler = "'req \<Rightarrow> exchange \<Rightarrow> completion \<times> exchange"

text \<open>
  \<open>catchWrap cb\<close> is an \<open>async\<close> function: it always returns a promise.  \<open>await\<close> of
  a plain value or a fulfilled promise continues, of a rejected promise throws its
  reason into the \<open>catch\<close> block, as a \<open>throw\<close> of \<open>cb\<close> does.
\<close>

definition catchWrap :: "'req handler \<Rightarrow> 'req handler" where
  "catchWrap cb req x =
     (case cb req x of
        (Returned, x') \<Rightarrow> (Fulfilled, x')
      | (Fulfilled, x') \<Rightarrow> (Fulfilled, x')
      | (Pending, x') \<Rightarrow> (Pending, x')
      | (Threw err, x') \<Rightarrow> (Fulfilled, next_call err x')
      | (Rejected err, x') \<Rightarrow> (Fulfilled, next_call err x'))"

text \<open>
  The interface \<open>ITxLegacyError\<close>, the transaction-fault shape, by the fields the
  middleware reads (\<open>Undefined\<close> for a field the error lacks).  The type guard
  \<open>isTxLegacyError\<close> of \<open>../../types/errors\<close> is not among the sources: it is a
  parameter, which yields the error narrowed to the interface when the guard holds and
  \<open>None\<close> when it does not.
\<close>

record ITxLegacyError =
  error :: js
  data :: js
  cause :: js
  stack :: js
  transaction :: js

definition txErrorMiddleware :: "(thrown \<Rightarrow> ITxLegacyError option) \<Rightarrow> thrown \<Rightarrow> exchange \<Rightarrow> exchange" where
  "txErrorMiddleware isTxLegacyError err x =
     (if headersSent (res x) \<or> isTxLegacyError err = None then next_call err x
      else
        case isTxLegacyError err of
          None \<Rightarrow> next_call err x
        | Some e \<Rightarrow>
            x\<lparr>res := send (Obj [(''code'', Num (Finite 500)),
                                (''error'', error e),
                                (''data'', data e),
                                (''transaction'', transaction e),
                                (''cause'', cause e),
                                (''stack'', stack e)])
                          (status 500 (res x))\<rparr>)"

subsection \<open>Guards by field presence\<close>

text \<open>The value of a property of an object; \<open>Undefined\<close> when it has none of that name.\<close>

definition field :: "(string \<times> js) list \<Rightarrow> string \<Rightarrow> js" where
  "field ps k = (case map_of ps k of None \<Rightarrow> Undefined | Some v \<Rightarrow> v)"

text \<open>
  Modelled from the spec: the guards \<open>isBasicLegacyError\<close> and \<open>isTxLegacyError\<close> of
  \<open>types/errors\<close> are missing from the sources.  The spec gives the basic upstream
  error the fields \<open>error, data, cause\<close>, the transaction one the fields
  \<open>error, data, cause, transaction, stack\<close>, and says that the shape is discriminated
  by field presence.  Here a value has the basic shape when it is an object with a
  field \<open>error\<close>, and the transaction shape when it also has a field \<open>cause\<close>.
  These two instances are used at concrete inputs only; the functions above take the
  guards as parameters.
\<close>

fun isBasicLegacyError :: "thrown \<Rightarrow> bool" where
  "isBasicLegacyError (Thrown (Obj ps)) = (field ps ''error'' \<noteq> Undefined)"
| "isBasicLegacyError _ = False"

text \<open>
  Modelled from the spec: \<open>isTxLegacyError\<close> of \<open>types/errors\<close>, missing from the
  sources; a guard by presence of the fields \<open>error\<close> and \<open>cause\<close>, as said above.
\<close>

fun isTxLegacyError :: "thrown \<Rightarrow> ITxLegacyError option" where
  "isTxLegacyError (Thrown (Obj ps)) =
     (if field ps ''error'' \<noteq> Undefined \<and> field ps ''cause'' \<noteq> Undefined
      then Some \<lparr>error = field ps ''error'', data = field ps ''data'', cause = field ps ''cause'',
                 stack = field ps ''stack'', transaction = field ps ''transaction''\<rparr>
      else None)"
| "isTxLegacyError _ = None"

section \<open>The number sanitizer\<close>

text \<open>
  Modelled from the spec: \<open>sanitizeNumbers\<close> of \<open>../sanitize\<close>, which
  \<open>sanitizedSend\<close> applies to a body before sending it, is missing from the sources.
  By the spec it traverses the value structurally, objects field by field with keys and
  order kept, sequences element by element with length and order kept; a leaf that is a
  chain-native big integer or numeric-string representation is rewritten to the
  canonical decimal string of its value; plain numbers and the non-numeric leaves
  (strings, booleans, null) pass through unchanged.
\<close>

datatype payload =
    PNull
  | PBool bool
  | PNumber jsnum
  | PString string
  | PNative int
  | PArray "payload list"
  | PObject "(string \<times> payload) list"

text \<open>
  Modelled from the spec: \<open>sanitizeNumbers\<close> of \<open>../sanitize\<close>, missing from the
  sources; the traversal and the rewriting of numeric leaves of spec section 4.2.
\<close>

primrec sanitizeNumbers :: "payload \<Rightarrow> payload" where
  "sanitizeNumbers PNull = PNull"
| "sanitizeNumbers (PBool b) = PBool b"
| "sanitizeNumbers (PNumber n) = PNumber n"
| "sanitizeNumbers (PString s) = PString s"
| "sanitizeNumbers (PNative i) = PString (intString i)"
| "sanitizeNumbers (PArray vs) = PArray (map sanitizeNumbers vs)"
| "sanitizeNumbers (PObject kvs) = PObject (map (map_prod id sanitizeNumbers) kvs)"

text \<open>The shape of a value: its nesting, keys, lengths and order, without the leaves.\<close>

datatype shape = SLeaf | SArray "shape list" | SObject "(string \<times> shape) list"

primrec shapeOf :: "payload \<Rightarrow> shape" where
  "shapeOf PNull = SLeaf"
| "shapeOf (PBool b) = SLeaf"
| "shapeOf (PNumber n) = SLeaf"
| "shapeOf (PString s) = SLeaf"
| "shapeOf (PNative i) = SLeaf"
| "shapeOf (PArray vs) = SArray (map shapeOf vs)"
| "shapeOf (PObject kvs) = SObject (map (map_prod id shapeOf) kvs)"

section \<open>Concrete inputs\<close>

text \<open>
  A chain whose latest header is block 9000000: it knows a hash for every height up to
  that one and rejects the lookup of any greater height.
\<close>

definition exampleApi :: api where
  "exampleApi =
     \<lparr>getBlockHash = (\<lambda>n. if js_less (Finite 9000000) n then Inl (Str ''Unable to retrieve header'')
                           else Inr (BlockHash ''0xfeed'')),
      getHeader = Inr 9000000,
      getFinalizedHead = Inr (BlockHash ''0xf1a1'')\<rparr>"

text \<open>A client at block 9 whose hash lookup rejects with an object that has a field \<open>error\<close>.\<close>

definition legacyFault :: js where
  "legacyFault = Obj [(''error'', Str ''boom'')]"

definition legacyFaultApi :: api where
  "legacyFaultApi =
     \<lparr>getBlockHash = (\<lambda>n. Inl legacyFault),
      getHeader = Inr 9,
      getFinalizedHead = Inr (BlockHash ''0xf1a1'')\<rparr>"

definition exampleHash :: string where
  "exampleHash = ''0x'' @ replicate 64 CHR ''a''"

text \<open>A request whose response is untouched, and one whose response has been sent.\<close>

definition freshExchange :: exchange where
  "freshExchange = \<lparr>res = \<lparr>headersSent = False, statusCode = 200, body = None\<rparr>, nextCalls = []\<rparr>"

definition sentExchange :: exchange where
  "sentExchange =
     \<lparr>res = \<lparr>headersSent = True, statusCode = 200, body = Some (Str ''partial'')\<rparr>, nextCalls = []\<rparr>"

definition txFault :: thrown where
  "txFault = Thrown (Obj [(''error'', Str ''Failed to parse a tx.''), (''data'', Str ''0x00''),
                          (''cause'', Str ''createType failed''), (''stack'', Str ''at parse'')])"

text \<open>A handler that writes nothing and returns a promise rejecting with \<open>legacyFault\<close>.\<close>

definition rejectingHandler :: "unit handler" where
  "rejectingHandler req x = (Rejected (Thrown legacyFault), x)"

text \<open>
  The spec's wording of a height: a non-empty text of decimal digits.
\<close>

definition isNonNegativeDecimalInteger :: "string \<Rightarrow> bool" where
  "isNonNegativeDecimalInteger s = (s \<noteq> [] \<and> list_all (isDigitOf 10) s)"

text \<open>
  The characters that occur in some numeric literal or in the white space around it: the
  hexadecimal digits, the letters of the prefixes, of the exponent and of \<open>Infinity\<close>,
  the signs and the point.  A text with any other character is not numeric.
\<close>

definition isNumericLiteralChar :: "char \<Rightarrow> bool" where
  "isNumericLiteralChar c =
     (isDigitOf 16 c \<or> c \<in> set ''xXoObBeE+-.Infinity'' \<or> isStrWhiteSpaceChar c)"

section \<open>Properties of the number conversions\<close>

lemma isDigitOf_10: "isDigitOf 10 c \<longleftrightarrow> 48 \<le> (of_char c :: nat) \<and> (of_char c :: nat) \<le> 57"
  by (auto simp: isDigitOf_def digitValue_def Let_def)

lemma bitLength_le: "0 \<le> p \<Longrightarrow> p < 2 ^ k \<Longrightarrow> bitLength p \<le> int k"
proof (induction k arbitrary: p)
  case 0
  then show ?case by (simp add: bitLength.simps)
next
  case (Suc k)
  show ?case
  proof (cases "p \<le> 0")
    case True
    then show ?thesis by (simp add: bitLength.simps)
  next
    case False
    have "p div 2 < 2 ^ k" using Suc.prems by simp
    moreover have "0 \<le> p div 2" using Suc.prems by simp
    ultimately have "bitLength (p div 2) \<le> int k" by (rule Suc.IH[rotated])
    then show ?thesis using False by (subst bitLength.simps) simp
  qed
qed

lemma roundHalfEven_of_int: "roundHalfEven (of_int m) = m"
  by (simp add: roundHalfEven_def)

text \<open>An integer below \<open>2 ^ 53\<close> is a binary64 value: rounding leaves it as it is.\<close>

lemma toDouble_exact:
  assumes "0 \<le> v" and "v < 2 ^ 53"
  shows "toDouble (of_int v) = Finite (of_int v)"
proof (cases "v = 0")
  case True
  then show ?thesis by (simp add: toDouble_def)
next
  case False
  with assms have pos: "0 < v" by simp
  define a :: rat where "a = of_int v"
  have apos: "0 < a" using pos by (simp add: a_def)
  have q: "quotient_of a = (v, 1)" by (simp add: a_def)
  have b1: "bitLength 1 = 1" by (simp add: bitLength.simps)
  have "bitLength v \<le> 53" using bitLength_le [of v 53] assms by simp
  then have fl: "floorLog2 a \<le> 52" by (simp add: floorLog2_def q b1 Let_def)
  define e where "e = max (floorLog2 a) (- 1022)"
  have e: "e \<le> 52" using fl by (simp add: e_def)
  define k where "k = nat (52 - e)"
  have ulp: "pow2 (e - 52) = 1 / 2 ^ k"
  proof (cases "e = 52")
    case True
    then show ?thesis by (simp add: pow2_def k_def)
  next
    case False
    with e have "e < 52" by simp
    then show ?thesis by (simp add: pow2_def k_def)
  qed
  have quo: "a / pow2 (e - 52) = of_int (v * 2 ^ k)" by (simp add: ulp a_def)
  have d: "of_int (roundHalfEven (a / pow2 (e - 52))) * pow2 (e - 52) = a"
    unfolding quo roundHalfEven_of_int by (simp add: ulp a_def)
  have "a < 2 ^ 53" using assms(2) unfolding a_def
    by (metis of_int_less_iff of_int_numeral of_int_power)
  also have "\<dots> \<le> (2::rat) ^ 1024" by (rule power_increasing) simp_all
  finally have lt: "\<not> pow2 1024 \<le> a" by (simp add: pow2_def)
  have "toDouble a = Finite a"
    using apos lt by (simp add: toDouble_def Let_def d [unfolded e_def])
  then show ?thesis by (simp add: a_def)
qed

lemma digitsValue_nonneg_aux:
  "0 \<le> acc \<Longrightarrow>
   0 \<le> foldl (\<lambda>acc c. acc * int b + (case digitValue c of None \<Rightarrow> 0 | Some v \<Rightarrow> int v)) acc ds"
  by (induction ds arbitrary: acc) (auto split: option.splits)

lemma digitsValue_nonneg: "0 \<le> digitsValue b ds"
  by (simp add: digitsValue_def digitsValue_nonneg_aux)

lemma trimString_digits:
  assumes "list_all (isDigitOf 10) s"
  shows "trimString s = s"
proof -
  have nw: "\<And>c. isDigitOf 10 c \<Longrightarrow> \<not> isStrWhiteSpaceChar c"
    by (auto simp: isDigitOf_10 isStrWhiteSpaceChar_def)
  have 1: "dropWhile isStrWhiteSpaceChar s = s"
    using assms nw by (cases s) auto
  have 2: "dropWhile isStrWhiteSpaceChar (rev s) = rev s"
    using assms nw by (cases "rev s") (auto simp: list_all_iff dest: arg_cong[where f=set])
  show ?thesis by (simp add: trimString_def 1 2)
qed

lemma digit_chars:
  "\<not> isDigitOf 10 CHR ''x''" "\<not> isDigitOf 10 CHR ''X''" "\<not> isDigitOf 10 CHR ''o''"
  "\<not> isDigitOf 10 CHR ''O''" "\<not> isDigitOf 10 CHR ''b''" "\<not> isDigitOf 10 CHR ''B''"
  "\<not> isDigitOf 10 CHR ''-''" "\<not> isDigitOf 10 CHR ''+''" "\<not> isDigitOf 10 CHR ''I''"
  by (simp_all add: isDigitOf_10)

text \<open>On a text of decimal digits, \<open>Number\<close> is the decimal reading, rounded to binary64.\<close>

lemma Number_digits:
  assumes "s \<noteq> []" and "list_all (isDigitOf 10) s"
  shows "Number s = toDouble (of_int (digitsValue 10 s))"
proof -
  have t: "trimString s = s" using assms(2) by (rule trimString_digits)
  have p: "take 2 s \<notin> {''0x'', ''0X'', ''0o'', ''0O'', ''0b'', ''0B''}"
    using assms(2) digit_chars by (cases s; cases "tl s") auto
  obtain c u where s: "s = c # u" using assms(1) by (cases s) auto
  have c: "c \<noteq> CHR ''-''" "c \<noteq> CHR ''+''" "c \<noteq> CHR ''I''"
    using assms(2) digit_chars s by auto
  have tw: "takeWhile (isDigitOf 10) s = s" "dropWhile (isDigitOf 10) s = []"
    using assms(2) by (simp_all add: list_all_iff)
  have u: "unsignedDecimal s = Some (of_int (digitsValue 10 s))"
    using assms(1) by (simp add: unsignedDecimal_def tw exponentPart_def)
  have "strDecimalLiteral s = toDouble (of_int (digitsValue 10 s))"
    using c u by (simp add: strDecimalLiteral_def s)
  then show ?thesis using p assms(1) by (simp add: Number_def t)
qed

lemma Number_decimal_height:
  assumes "s \<noteq> []" and "list_all (isDigitOf 10) s" and "digitsValue 10 s < 2 ^ 53"
  shows "Number s = Finite (of_int (digitsValue 10 s))"
  using Number_digits [OF assms(1,2)] toDouble_exact [OF digitsValue_nonneg assms(3)] by simp

text \<open>\<open>decimalString\<close> writes decimal digits, and they read back as the number.\<close>

lemma digitValue_digitChar: "d < 10 \<Longrightarrow> digitValue (digitChar d) = Some d"
proof -
  assume "d < 10"
  then have "d \<in> {0, 1, 2, 3, 4, 5, 6, 7, 8, 9}" by auto
  then show ?thesis
    by (auto simp: digitChar_def digitValue_def)
qed

lemma isDigitOf_digitChar: "d < 10 \<Longrightarrow> isDigitOf 10 (digitChar d)"
  by (simp add: isDigitOf_def digitValue_digitChar)

lemma div_mod_10: "int (n div 10) * 10 + int (n mod 10) = int n"
proof -
  have "int (n div 10 * 10 + n mod 10) = int n" by simp
  then show ?thesis by (simp only: of_nat_add of_nat_mult of_nat_numeral)
qed

lemma digitsValue_snoc:
  "digitsValue b (ds @ [c]) =
     digitsValue b ds * int b + (case digitValue c of None \<Rightarrow> 0 | Some v \<Rightarrow> int v)"
  by (simp add: digitsValue_def)

lemma decimalString_digits: "list_all (isDigitOf 10) (decimalString n)"
proof (induction n rule: decimalString.induct)
  case (1 n)
  show ?case
  proof (cases "n < 10")
    case True
    then show ?thesis
      by (subst decimalString.simps) (simp add: isDigitOf_digitChar)
  next
    case False
    then show ?thesis
      using "1.IH" by (subst decimalString.simps) (simp add: isDigitOf_digitChar)
  qed
qed

lemma decimalString_value: "digitsValue 10 (decimalString n) = int n"
proof (induction n rule: decimalString.induct)
  case (1 n)
  show ?case
  proof (cases "n < 10")
    case True
    then show ?thesis
      by (subst decimalString.simps) (simp add: digitsValue_def digitValue_digitChar)
  next
    case False
    then show ?thesis
      using "1.IH"
      by (subst decimalString.simps) (simp add: digitsValue_snoc digitValue_digitChar div_mod_10)
  qed
qed


text \<open>
  A text with a character that no numeric literal contains converts to \<open>NaN\<close>, and a
  minus sign before decimal digits of a value from 1 to below \<open>2 ^ 53\<close> converts to the
  negative of that value.
\<close>

lemma in_dropWhile: "x \<in> set xs \<Longrightarrow> \<not> P x \<Longrightarrow> x \<in> set (dropWhile P xs)"
  by (induction xs) auto

lemma in_trimString: "c \<in> set s \<Longrightarrow> \<not> isStrWhiteSpaceChar c \<Longrightarrow> c \<in> set (trimString s)"
  by (simp add: trimString_def in_dropWhile)

lemma isDigitOf_16: "b \<le> 16 \<Longrightarrow> isDigitOf b c \<Longrightarrow> isDigitOf 16 c"
  by (auto simp: isDigitOf_def split: option.splits)

lemma nonDecimalLiteral_bad: "c \<in> set ds \<Longrightarrow> \<not> isDigitOf b c \<Longrightarrow> nonDecimalLiteral b ds = NaN"
  by (auto simp: nonDecimalLiteral_def list_all_iff)

lemma in_drop2: "take 2 t = [a, b] \<Longrightarrow> c \<in> set t \<Longrightarrow> c \<noteq> a \<Longrightarrow> c \<noteq> b \<Longrightarrow> c \<in> set (drop 2 t)"
  by (cases t; cases "tl t") auto

lemma exponentPart_bad:
  assumes "c \<in> set t" and "\<not> isDigitOf 10 c"
    and "c \<noteq> CHR ''e''" "c \<noteq> CHR ''E''" "c \<noteq> CHR ''+''" "c \<noteq> CHR ''-''"
  shows "exponentPart t = None"
  using assms
  by (auto simp: exponentPart_def list_all_iff split: list.splits)

lemma unsignedDecimal_bad:
  assumes "c \<in> set u" and "\<not> isDigitOf 10 c" and "c \<noteq> CHR ''.''"
    and "c \<noteq> CHR ''e''" "c \<noteq> CHR ''E''" "c \<noteq> CHR ''+''" "c \<noteq> CHR ''-''"
  shows "unsignedDecimal u = None"
proof -
  define t1 where "t1 = dropWhile (isDigitOf 10) u"
  have c1: "c \<in> set t1" unfolding t1_def using assms(1,2) by (rule in_dropWhile)
  then obtain x r where t1: "t1 = x # r" by (cases t1) auto
  show ?thesis
  proof (cases "x = CHR ''.''")
    case True
    with c1 t1 assms(3) have "c \<in> set r" by auto
    then have "c \<in> set (dropWhile (isDigitOf 10) r)" using assms(2) by (rule in_dropWhile)
    then have "exponentPart (dropWhile (isDigitOf 10) r) = None"
      using assms by (intro exponentPart_bad) auto
    then show ?thesis
      using True t1 by (simp add: unsignedDecimal_def Let_def t1_def [symmetric])
  next
    case False
    have "exponentPart t1 = None" using c1 assms by (intro exponentPart_bad) auto
    then show ?thesis
      using False t1 by (simp add: unsignedDecimal_def Let_def t1_def [symmetric])
  qed
qed

lemma Number_not_numeric:
  assumes "c \<in> set s" and "\<not> isNumericLiteralChar c"
  shows "Number s = NaN"
proof -
  from assms(2) have nd: "\<not> isDigitOf 16 c" and nw: "\<not> isStrWhiteSpaceChar c"
    and nc: "c \<notin> set ''xXoObBeE+-.Infinity''"
    by (simp_all add: isNumericLiteralChar_def)
  have d: "\<not> isDigitOf 10 c" "\<not> isDigitOf 8 c" "\<not> isDigitOf 2 c"
    using nd isDigitOf_16 [of 10 c] isDigitOf_16 [of 8 c] isDigitOf_16 [of 2 c] by auto
  have z: "c \<noteq> CHR ''0''" using nd by (auto simp: isDigitOf_def digitValue_def)
  define t where "t = trimString s"
  have ct: "c \<in> set t" unfolding t_def using assms(1) nw by (rule in_trimString)
  then have tn: "t \<noteq> []" by auto
  have lit: "\<And>b x. take 2 t = [CHR ''0'', x] \<Longrightarrow> c \<noteq> x \<Longrightarrow> \<not> isDigitOf b c
                \<Longrightarrow> nonDecimalLiteral b (drop 2 t) = NaN"
    using ct z by (blast intro: nonDecimalLiteral_bad in_drop2)
  have dec: "strDecimalLiteral t = NaN"
  proof -
    obtain x r where t: "t = x # r" using tn by (cases t) auto
    define u where "u = (if x = CHR ''-'' \<or> x = CHR ''+'' then r else t)"
    have cu: "c \<in> set u" using ct t nc by (auto simp: u_def)
    have inf: "u \<noteq> ''Infinity''" using cu nc by auto
    have "unsignedDecimal u = None"
      using cu d(1) nc by (intro unsignedDecimal_bad) auto
    then show ?thesis using inf by (auto simp: strDecimalLiteral_def t u_def)
  qed
  show ?thesis
    unfolding Number_def t_def [symmetric] Let_def
    using tn dec lit nc nd d by auto
qed

lemma unsignedDecimal_digits:
  assumes "ds \<noteq> []" and "list_all (isDigitOf 10) ds"
  shows "unsignedDecimal ds = Some (of_int (digitsValue 10 ds))"
proof -
  have tw: "takeWhile (isDigitOf 10) ds = ds" "dropWhile (isDigitOf 10) ds = []"
    using assms(2) by (simp_all add: list_all_iff)
  show ?thesis using assms(1) by (simp add: unsignedDecimal_def tw exponentPart_def)
qed

lemma trimString_id:
  assumes "s \<noteq> []" and "\<not> isStrWhiteSpaceChar (hd s)" and "\<not> isStrWhiteSpaceChar (last s)"
  shows "trimString s = s"
proof -
  have 1: "dropWhile isStrWhiteSpaceChar s = s"
    using assms(1,2) by (cases s) auto
  obtain y ys where r: "rev s = y # ys" using assms(1) by (cases "rev s") auto
  have "hd (rev s) = last s" using assms(1) by (simp add: hd_rev)
  then have "y = last s" by (simp add: r)
  then have 2: "dropWhile isStrWhiteSpaceChar (rev s) = rev s"
    using assms(3) by (simp add: r)
  show ?thesis by (simp add: trimString_def 1 2)
qed

lemma toDouble_minus: "0 < r \<Longrightarrow> toDouble r = Finite d \<Longrightarrow> toDouble (- r) = Finite (- d)"
  by (auto simp: toDouble_def Let_def split: if_splits)

lemma Number_negative:
  assumes "ds \<noteq> []" and "list_all (isDigitOf 10) ds"
    and "0 < digitsValue 10 ds" and "digitsValue 10 ds < 2 ^ 53"
  shows "Number (CHR ''-'' # ds) = Finite (- of_int (digitsValue 10 ds))"
proof -
  have nw: "\<And>c. isDigitOf 10 c \<Longrightarrow> \<not> isStrWhiteSpaceChar c"
    by (auto simp: isDigitOf_10 isStrWhiteSpaceChar_def)
  have l: "isDigitOf 10 (last ds)"
    using assms(1,2) by (simp add: list_all_iff)
  have t: "trimString (CHR ''-'' # ds) = CHR ''-'' # ds"
    using assms(1) nw [OF l] by (intro trimString_id) (simp_all add: isStrWhiteSpaceChar_def)
  have i: "ds \<noteq> ''Infinity''" using assms(2) digit_chars by auto
  have "toDouble (of_int (digitsValue 10 ds)) = Finite (of_int (digitsValue 10 ds))"
    using assms(3,4) by (intro toDouble_exact) simp_all
  then have m: "toDouble (- of_int (digitsValue 10 ds)) = Finite (- of_int (digitsValue 10 ds))"
    using assms(3) by (intro toDouble_minus) simp_all
  have "strDecimalLiteral (CHR ''-'' # ds) = Finite (- of_int (digitsValue 10 ds))"
    using i m by (simp add: strDecimalLiteral_def unsignedDecimal_digits [OF assms(1,2)])
  then show ?thesis by (simp add: Number_def t)
qed

section \<open>Evaluations used at the concrete inputs\<close>

lemma parseNumberOrThrow_Inr:
  "parseNumberOrThrow s m = Inr n \<longleftrightarrow>
     n = Number s \<and> Number_isInteger (Number s) \<and> \<not> js_less (Number s) (Finite 0)"
  by (auto simp: parseNumberOrThrow_def Let_def)

lemma parseNumberOrThrow_Inl:
  "parseNumberOrThrow s m = Inl e \<longleftrightarrow>
     e = BadRequest m \<and> (\<not> Number_isInteger (Number s) \<or> js_less (Number s) (Finite 0))"
  by (auto simp: parseNumberOrThrow_def Let_def)

lemma larger_than_header:
  assumes "Number_isInteger n" and "\<not> js_less n (Finite 0)"
  shows "(truthy (Num n) \<and> js_less (Finite (of_nat h)) n) = js_less (Finite (of_nat h)) n"
  using assms by (cases n) auto

lemma Number_examples:
  "Number ''12345678'' = Finite 12345678"
  "Number ''5'' = Finite 5"
  "Number ''42'' = Finite 42"
  by (simp_all add: Number_decimal_height isDigitOf_def digitValue_def digitsValue_def)

lemma Number_binary_example: "Number ''0b11'' = Finite 3"
proof -
  have "nonDecimalLiteral 2 ''11'' = toDouble (of_int 3)"
    by (simp add: nonDecimalLiteral_def isDigitOf_def digitValue_def digitsValue_def)
  also have "\<dots> = Finite (of_int 3)" by (rule toDouble_exact) simp_all
  finally show ?thesis
    by (simp add: Number_def trimString_def isStrWhiteSpaceChar_def)
qed

lemma Number_text_example: "Number ''abc'' = NaN"
  by (simp add: Number_def trimString_def isStrWhiteSpaceChar_def strDecimalLiteral_def
      unsignedDecimal_def isDigitOf_def digitValue_def)

lemma isHex_examples:
  "\<not> isHex ''12345678''" "\<not> isHex ''5''" "\<not> isHex ''42''" "\<not> isHex ''0b11''"
  "\<not> isHex ''abc''" "isHex ''0xabcd''" "\<not> isHex ''0xzz''"
  by (simp_all add: isHex_def isDigitOf_def digitValue_def)

lemma exampleHash_isHex: "isHex exampleHash" "length exampleHash = 66"
  by (simp_all add: exampleHash_def isHex_def isDigitOf_def digitValue_def list_all_iff)

lemma decimalString_examples: "decimalString 9000000 = ''9000000''"
  by (simp add: decimalString.simps digitChar_def)

section \<open>The block identifier resolver\<close>

text \<open>
  C1, as the code has it.  Let the identifier be neither hex-shaped nor prefixed \<open>0x\<close> and
  parse as the height \<open>n\<close>, and let the client reject the lookup of the hash at \<open>n\<close> with
  \<open>f\<close>.  Then the resolver asks for the current header, after the hash lookup and
  nothing else.  If that fails, the result is the InternalError "Failed while trying to
  get the latest header."  If the header is at height \<open>number\<close>, the result is the
  InputError whose message names \<open>number\<close> in decimal (\<open>decimalString_value\<close>) exactly when
  \<open>n\<close> exceeds \<open>number\<close>; otherwise the fault \<open>f\<close> itself is thrown again when the guard
  \<open>isBasicLegacyError\<close> accepts it, and an InternalError in the remaining case.
\<close>

theorem getHashForBlock_height_lookup_fails:
  assumes "\<not> isHex blockId" and "take 2 blockId \<noteq> ''0x''"
    and "parseNumberOrThrow blockId ''Invalid block number'' = Inr n"
    and "getBlockHash api n = Inl f"
  shows "getHashForBlock g api blockId =
           (case getHeader api of
              Inl _ \<Rightarrow> Inl (HttpError 500 ''Failed while trying to get the latest header.'')
            | Inr number \<Rightarrow>
                if js_less (Finite (of_nat number)) n
                then Inl (HttpError 400
                            (''Specified block number is larger than the current largest block. '' @
                             ''The largest known block number is '' @ decimalString number @ ''.''))
                else if g (Thrown f) then Inl (Thrown f)
                else Inl (HttpError 500 (''Cannot get block hash for '' @ blockId @ ''.'')),
            [GetBlockHash n, GetHeader])"
proof -
  from assms(3) have n: "Number_isInteger n" "\<not> js_less n (Finite 0)"
    by (simp_all add: parseNumberOrThrow_Inr)
  have t: "getHashForBlock_try api blockId = (Inl (Thrown f), Some n, [GetBlockHash n])"
    using assms by (simp add: getHashForBlock_try_def)
  show ?thesis
    by (simp add: getHashForBlock_def t getHashForBlock_catch_def larger_than_header [OF n]
        BadRequest_def InternalServerError_def split: sum.splits)
qed

text \<open>
  Witness for C1: height 12345678 on the chain whose header is at 9000000.  The lookup is
  rejected, and the result is the InputError naming 9000000.
\<close>

theorem getHashForBlock_height_lookup_fails_witness:
  "\<not> isHex ''12345678'' \<and> take 2 ''12345678'' \<noteq> ''0x''
   \<and> parseNumberOrThrow ''12345678'' ''Invalid block number'' = Inr (Finite 12345678)
   \<and> getBlockHash exampleApi (Finite 12345678) = Inl (Str ''Unable to retrieve header'')
   \<and> getHashForBlock isBasicLegacyError exampleApi ''12345678'' =
       (Inl (HttpError 400
          (''Specified block number is larger than the current largest block. '' @
           ''The largest known block number is 9000000.'')),
        [GetBlockHash (Finite 12345678), GetHeader])"
proof -
  have h: "\<not> isHex ''12345678''" "take 2 ''12345678'' \<noteq> ''0x''"
    by (simp_all add: isHex_examples)
  have p: "parseNumberOrThrow ''12345678'' ''Invalid block number'' = Inr (Finite 12345678)"
    by (simp add: parseNumberOrThrow_def Number_examples)
  have f: "getBlockHash exampleApi (Finite 12345678) = Inl (Str ''Unable to retrieve header'')"
    by (simp add: exampleApi_def)
  have hd: "getHeader exampleApi = Inr 9000000"
    by (simp add: exampleApi_def)
  show ?thesis
    using getHashForBlock_height_lookup_fails [OF h p f, of isBasicLegacyError] h p f
    by (simp add: hd decimalString_examples)
qed

text \<open>
  Counterexample to C1 as stated: the client at block 9 rejects the lookup of height 5
  with an object that has a field \<open>error\<close>.  Height 5 does not exceed 9, yet the result
  is not an InternalError (nor an InputError): the client's fault is thrown again.
\<close>

theorem getHashForBlock_height_lookup_fails_counterexample:
  "\<not> isHex ''5'' \<and> take 2 ''5'' \<noteq> ''0x''
   \<and> parseNumberOrThrow ''5'' ''Invalid block number'' = Inr (Finite 5)
   \<and> getBlockHash legacyFaultApi (Finite 5) = Inl legacyFault
   \<and> getHeader legacyFaultApi = Inr 9
   \<and> \<not> js_less (Finite 9) (Finite 5)
   \<and> getHashForBlock isBasicLegacyError legacyFaultApi ''5'' =
       (Inl (Thrown legacyFault), [GetBlockHash (Finite 5), GetHeader])
   \<and> \<not> isInternalError (fst (getHashForBlock isBasicLegacyError legacyFaultApi ''5''))
   \<and> \<not> isInputError (fst (getHashForBlock isBasicLegacyError legacyFaultApi ''5''))"
proof -
  have p: "parseNumberOrThrow ''5'' ''Invalid block number'' = Inr (Finite 5)"
    by (simp add: parseNumberOrThrow_def Number_examples)
  have r: "getHashForBlock isBasicLegacyError legacyFaultApi ''5'' =
             (Inl (Thrown legacyFault), [GetBlockHash (Finite 5), GetHeader])"
    by (simp add: getHashForBlock_def getHashForBlock_try_def getHashForBlock_catch_def
        isHex_examples p legacyFaultApi_def legacyFault_def field_def)
  show ?thesis
    by (simp add: r p isHex_examples) (simp add: legacyFaultApi_def)
qed

text \<open>
  What the resolver does with a text that is neither hex-shaped nor prefixed \<open>0x\<close>: it
  converts it with JavaScript's \<open>Number\<close>.  When the value is a non-negative integer, the
  resolver asks the client for the hash at that height, first of all, and returns the
  client's hash when the lookup succeeds.  When the value is anything else (\<open>NaN\<close>, an
  infinity, a fraction, a negative number), the resolver fails with the InputError
  "Cannot get block hash for ... Block IDs must be either 32-byte hex strings or
  non-negative decimal integers." and makes no call to the client.  On a text of decimal
  digits whose value is below \<open>2 ^ 53\<close>, \<open>Number\<close> is that value.
\<close>

theorem getHashForBlock_height_parsing:
  assumes "\<not> isHex s" and "take 2 s \<noteq> ''0x''"
  shows "(Number_isInteger (Number s) \<and> \<not> js_less (Number s) (Finite 0) \<longrightarrow>
            take 1 (snd (getHashForBlock g api s)) = [GetBlockHash (Number s)]
            \<and> (\<forall>h. getBlockHash api (Number s) = Inr h \<longrightarrow>
                  getHashForBlock g api s = (Inr h, [GetBlockHash (Number s)])))
       \<and> (\<not> (Number_isInteger (Number s) \<and> \<not> js_less (Number s) (Finite 0)) \<longrightarrow>
            getHashForBlock g api s =
              (Inl (HttpError 400 (''Cannot get block hash for '' @ s @ ''. '' @
                 ''Block IDs must be either 32-byte hex strings or non-negative decimal integers.'')),
               []))
       \<and> (isNonNegativeDecimalInteger s \<and> digitsValue 10 s < 2 ^ 53 \<longrightarrow>
            Number s = Finite (of_int (digitsValue 10 s))
            \<and> Number_isInteger (Number s) \<and> \<not> js_less (Number s) (Finite 0))"
proof (intro conjI impI allI)
  assume v: "Number_isInteger (Number s) \<and> \<not> js_less (Number s) (Finite 0)"
  then have p: "parseNumberOrThrow s ''Invalid block number'' = Inr (Number s)"
    by (simp add: parseNumberOrThrow_Inr)
  show "take 1 (snd (getHashForBlock g api s)) = [GetBlockHash (Number s)]"
    using assms p
    by (simp add: getHashForBlock_def getHashForBlock_try_def split: sum.splits prod.splits)
  fix h assume "getBlockHash api (Number s) = Inr h"
  then show "getHashForBlock g api s = (Inr h, [GetBlockHash (Number s)])"
    using assms p by (simp add: getHashForBlock_def getHashForBlock_try_def)
next
  assume "\<not> (Number_isInteger (Number s) \<and> \<not> js_less (Number s) (Finite 0))"
  then have "parseNumberOrThrow s ''Invalid block number'' = Inl (BadRequest ''Invalid block number'')"
    by (simp add: parseNumberOrThrow_Inl)
  then show "getHashForBlock g api s =
              (Inl (HttpError 400 (''Cannot get block hash for '' @ s @ ''. '' @
                 ''Block IDs must be either 32-byte hex strings or non-negative decimal integers.'')),
               [])"
    using assms
    by (simp add: getHashForBlock_def getHashForBlock_try_def getHashForBlock_catch_def BadRequest_def)
next
  assume d: "isNonNegativeDecimalInteger s \<and> digitsValue 10 s < 2 ^ 53"
  then have n: "Number s = Finite (of_int (digitsValue 10 s))"
    by (simp add: isNonNegativeDecimalInteger_def Number_decimal_height)
  show "Number s = Finite (of_int (digitsValue 10 s))" by (rule n)
  show "Number_isInteger (Number s)" by (simp add: n)
  show "\<not> js_less (Number s) (Finite 0)"
    using digitsValue_nonneg [of 10 s] by (simp add: n)
qed

text \<open>
  At concrete inputs: \<open>42\<close> is looked up as height 42 and resolves to the client's hash;
  \<open>abc\<close> is rejected with the InputError and no call is made.
\<close>

theorem getHashForBlock_height_parsing_witness:
  "\<not> isHex ''42'' \<and> take 2 ''42'' \<noteq> ''0x'' \<and> isNonNegativeDecimalInteger ''42''
   \<and> digitsValue 10 ''42'' < 2 ^ 53 \<and> Number ''42'' = Finite 42
   \<and> getHashForBlock isBasicLegacyError exampleApi ''42'' =
       (Inr (BlockHash ''0xfeed''), [GetBlockHash (Finite 42)])
   \<and> \<not> isHex ''abc'' \<and> take 2 ''abc'' \<noteq> ''0x'' \<and> \<not> Number_isInteger (Number ''abc'')
   \<and> getHashForBlock isBasicLegacyError exampleApi ''abc'' =
       (Inl (HttpError 400 (''Cannot get block hash for abc. '' @
          ''Block IDs must be either 32-byte hex strings or non-negative decimal integers.'')), [])"
proof -
  have a: "\<not> isHex ''42''" "take 2 ''42'' \<noteq> ''0x''" "\<not> isHex ''abc''" "take 2 ''abc'' \<noteq> ''0x''"
    by (simp_all add: isHex_examples)
  have d: "isNonNegativeDecimalInteger ''42''" "digitsValue 10 ''42'' = 42"
    by (simp_all add: isNonNegativeDecimalInteger_def isDigitOf_def digitValue_def digitsValue_def)
  have g: "getBlockHash exampleApi (Finite 42) = Inr (BlockHash ''0xfeed'')"
    by (simp add: exampleApi_def)
  show ?thesis
    using getHashForBlock_height_parsing [OF a(1,2), of isBasicLegacyError exampleApi]
      getHashForBlock_height_parsing [OF a(3,4), of isBasicLegacyError exampleApi]
    by (simp add: a d g Number_examples Number_text_example)
qed

text \<open>
  C2, at two inputs where the code departs from it.  The text \<open>0b11\<close> and the empty
  text are neither hex-shaped nor prefixed \<open>0x\<close>, and neither is a non-negative base-10
  integer.  The claim, like the resolver's own message ("Block IDs must be either 32-byte
  hex strings or non-negative decimal integers"), has them rejected with an InputError
  and no call to the client.  The resolver reads \<open>0b11\<close> as the binary literal for 3 and
  the empty text as 0, asks the client for the hash at that height and returns it.
\<close>

theorem getHashForBlock_accepts_non_decimal:
  "\<not> isHex ''0b11'' \<and> take 2 ''0b11'' \<noteq> ''0x'' \<and> \<not> isNonNegativeDecimalInteger ''0b11''
   \<and> getHashForBlock isBasicLegacyError exampleApi ''0b11'' =
       (Inr (BlockHash ''0xfeed''), [GetBlockHash (Finite 3)])
   \<and> \<not> isInputError (fst (getHashForBlock isBasicLegacyError exampleApi ''0b11''))
   \<and> \<not> isHex [] \<and> take 2 [] \<noteq> ''0x'' \<and> \<not> isNonNegativeDecimalInteger []
   \<and> getHashForBlock isBasicLegacyError exampleApi [] =
       (Inr (BlockHash ''0xfeed''), [GetBlockHash (Finite 0)])"
proof -
  have d: "\<not> isNonNegativeDecimalInteger ''0b11''" "\<not> isNonNegativeDecimalInteger []"
    by (simp_all add: isNonNegativeDecimalInteger_def digit_chars)
  have h: "\<not> isHex []" by (simp add: isHex_def)
  have p: "parseNumberOrThrow ''0b11'' ''Invalid block number'' = Inr (Finite 3)"
    by (simp add: parseNumberOrThrow_def Number_binary_example)
  have r: "getHashForBlock isBasicLegacyError exampleApi ''0b11'' =
             (Inr (BlockHash ''0xfeed''), [GetBlockHash (Finite 3)])"
    by (simp add: getHashForBlock_def getHashForBlock_try_def isHex_examples p exampleApi_def)
  have n: "Number [] = Finite 0" by (simp add: Number_def trimString_def)
  have q: "parseNumberOrThrow [] ''Invalid block number'' = Inr (Finite 0)"
    by (simp add: parseNumberOrThrow_def n)
  have e: "getHashForBlock isBasicLegacyError exampleApi [] =
             (Inr (BlockHash ''0xfeed''), [GetBlockHash (Finite 0)])"
    by (simp add: getHashForBlock_def getHashForBlock_try_def h q exampleApi_def)
  show ?thesis by (simp add: r e d h isHex_examples)
qed

text \<open>
  C3.  For every valid hex string of 66 characters the resolver succeeds with the block
  hash made of that very string, and makes no call to the chain client.
\<close>

theorem getHashForBlock_hash_verbatim:
  assumes "isHex h" and "length h = 66"
  shows "getHashForBlock g api h = (Inr (BlockHash h), [])"
  using assms by (simp add: getHashForBlock_def getHashForBlock_try_def)

text \<open>Witness for C3: \<open>0x\<close> followed by 64 times the digit \<open>a\<close>.\<close>

theorem getHashForBlock_hash_verbatim_witness:
  "isHex exampleHash \<and> length exampleHash = 66
   \<and> getHashForBlock isBasicLegacyError exampleApi exampleHash = (Inr (BlockHash exampleHash), [])"
  using getHashForBlock_hash_verbatim [OF exampleHash_isHex, of isBasicLegacyError exampleApi]
    exampleHash_isHex
  by simp

text \<open>
  C4.  A hex-shaped identifier that is not 66 characters long, and an identifier that is
  prefixed \<open>0x\<close> without being valid hex, both fail with an InputError (status 400), and
  no call is made to the client: the text is never looked up as a height.  So does the
  bare \<open>0x\<close>.
\<close>

theorem getHashForBlock_bad_hex:
  "(isHex s \<and> length s \<noteq> 66 \<longrightarrow>
      getHashForBlock g api s =
        (Inl (HttpError 400 (''Cannot get block hash for '' @ s @ ''. '' @
               ''Hex string block IDs must be 32-bytes (66-characters) in length.'')), []))
   \<and> (\<not> isHex s \<and> take 2 s = ''0x'' \<longrightarrow>
      getHashForBlock g api s =
        (Inl (HttpError 400 (''Cannot get block hash for '' @ s @ ''. '' @
               ''Hex string block IDs must be a valid hex string '' @
               ''and must be 32-bytes (66-characters) in length.'')), []))
   \<and> isInputError (fst (getHashForBlock g api ''0x'')) \<and> snd (getHashForBlock g api ''0x'') = []"
  by (simp add: getHashForBlock_def getHashForBlock_try_def getHashForBlock_catch_def BadRequest_def)

text \<open>
  Witness for C4: \<open>0xabcd\<close> is hex of the wrong length, \<open>0xzz\<close> is prefixed \<open>0x\<close> and is
  not hex.
\<close>

theorem getHashForBlock_bad_hex_witness:
  "isHex ''0xabcd'' \<and> length ''0xabcd'' \<noteq> 66
   \<and> getHashForBlock isBasicLegacyError exampleApi ''0xabcd'' =
       (Inl (HttpError 400 (''Cannot get block hash for 0xabcd. '' @
               ''Hex string block IDs must be 32-bytes (66-characters) in length.'')), [])
   \<and> \<not> isHex ''0xzz'' \<and> take 2 ''0xzz'' = ''0x''
   \<and> getHashForBlock isBasicLegacyError exampleApi ''0xzz'' =
       (Inl (HttpError 400 (''Cannot get block hash for 0xzz. '' @
               ''Hex string block IDs must be a valid hex string '' @
               ''and must be 32-bytes (66-characters) in length.'')), [])"
  using getHashForBlock_bad_hex [of "''0xabcd''" isBasicLegacyError exampleApi]
    getHashForBlock_bad_hex [of "''0xzz''" isBasicLegacyError exampleApi]
  by (simp add: isHex_examples)

text \<open>
  C7.  An \<open>HttpError\<close> raised in the \<open>try\<close> block of the resolver leaves the resolver as
  it is, the same value, and the \<open>catch\<close> block makes no call to the client for it: no
  header lookup.  The three InputErrors of the resolver (hex of the wrong length, \<open>0x\<close>
  without valid hex, a text that is no height) are raised there, with status 400; the
  last one stands for the error of \<open>parseNumberOrThrow\<close>, which the \<open>try\<close> block
  catches itself and replaces by its own InputError.
\<close>

theorem getHashForBlock_own_errors_unchanged:
  "(\<forall>err. fst (getHashForBlock_try api s) = Inl err \<and> instanceofHttpError err \<longrightarrow>
      getHashForBlock g api s = (Inl err, []))
   \<and> ((isHex s \<and> length s \<noteq> 66) \<or> (\<not> isHex s \<and> take 2 s = ''0x'')
        \<or> (\<not> isHex s \<and> take 2 s \<noteq> ''0x''
            \<and> (\<not> Number_isInteger (Number s) \<or> js_less (Number s) (Finite 0)))
      \<longrightarrow> (\<exists>m. fst (getHashForBlock_try api s) = Inl (HttpError 400 m)))"
proof (intro conjI allI impI)
  fix err
  assume a: "fst (getHashForBlock_try api s) = Inl err \<and> instanceofHttpError err"
  then obtain st m where e: "err = HttpError st m" by (cases err) auto
  obtain r bn cs where t: "getHashForBlock_try api s = (r, bn, cs)"
    by (cases "getHashForBlock_try api s")
  with a e have r: "r = Inl (HttpError st m)" by simp
  have "cs = []"
    using t r by (auto simp: getHashForBlock_try_def Let_def split: if_splits sum.splits)
  then show "getHashForBlock g api s = (Inl err, [])"
    by (simp add: getHashForBlock_def t r e getHashForBlock_catch_def)
next
  assume "(isHex s \<and> length s \<noteq> 66) \<or> (\<not> isHex s \<and> take 2 s = ''0x'')
        \<or> (\<not> isHex s \<and> take 2 s \<noteq> ''0x''
            \<and> (\<not> Number_isInteger (Number s) \<or> js_less (Number s) (Finite 0)))"
  then show "\<exists>m. fst (getHashForBlock_try api s) = Inl (HttpError 400 m)"
    by (auto simp: getHashForBlock_try_def BadRequest_def parseNumberOrThrow_def Let_def)
qed

text \<open>
  Witness for C7: the \<open>try\<close> block raises the invalid-hex InputError for \<open>0xzz\<close>, and
  the resolver fails with that same error, without any call.
\<close>

theorem getHashForBlock_own_errors_unchanged_witness:
  "\<not> isHex ''0xzz'' \<and> take 2 ''0xzz'' = ''0x''
   \<and> fst (getHashForBlock_try exampleApi ''0xzz'') =
       Inl (HttpError 400 (''Cannot get block hash for 0xzz. '' @
              ''Hex string block IDs must be a valid hex string '' @
              ''and must be 32-bytes (66-characters) in length.''))
   \<and> getHashForBlock isBasicLegacyError exampleApi ''0xzz'' =
       (Inl (HttpError 400 (''Cannot get block hash for 0xzz. '' @
              ''Hex string block IDs must be a valid hex string '' @
              ''and must be 32-bytes (66-characters) in length.'')), [])"
proof -
  have t: "fst (getHashForBlock_try exampleApi ''0xzz'') =
       Inl (HttpError 400 (''Cannot get block hash for 0xzz. '' @
              ''Hex string block IDs must be a valid hex string '' @
              ''and must be 32-bytes (66-characters) in length.''))"
    by (simp add: getHashForBlock_try_def isHex_examples BadRequest_def)
  show ?thesis
    using getHashForBlock_own_errors_unchanged [of exampleApi "''0xzz''" isBasicLegacyError] t
    by (simp add: isHex_examples)
qed

text \<open>
  C9.  With a value of \<open>at\<close> that is not a string, \<open>getHashFromAt\<close> makes the
  finalized-head lookup and nothing else: it returns the hash of that lookup, or fails
  with the fault of that lookup, whatever the value of \<open>at\<close> is.
\<close>

theorem getHashFromAt_not_a_string:
  assumes "\<forall>s. at' \<noteq> Str s"
  shows "getHashFromAt g api at' =
           (case getFinalizedHead api of Inl err \<Rightarrow> Inl (Thrown err) | Inr h \<Rightarrow> Inr h,
            [GetFinalizedHead])"
  using assms by (cases at') (simp_all add: getHashFromAt_def split: sum.splits)

text \<open>Witness for C9: \<open>at\<close> absent, and \<open>at\<close> an array of two strings.\<close>

theorem getHashFromAt_not_a_string_witness:
  "(\<forall>s. Undefined \<noteq> Str s)
   \<and> getHashFromAt isBasicLegacyError exampleApi Undefined =
       (Inr (BlockHash ''0xf1a1''), [GetFinalizedHead])
   \<and> getFinalizedHead exampleApi = Inr (BlockHash ''0xf1a1'')
   \<and> getHashFromAt isBasicLegacyError exampleApi (Arr [Str ''1'', Str ''2'']) =
       (Inr (BlockHash ''0xf1a1''), [GetFinalizedHead])"
  using getHashFromAt_not_a_string [of Undefined isBasicLegacyError exampleApi]
    getHashFromAt_not_a_string [of "Arr [Str ''1'', Str ''2'']" isBasicLegacyError exampleApi]
  by (simp add: exampleApi_def)

section \<open>The numeric query parameter\<close>

text \<open>
  C10, as far as the code goes by design.  \<open>verifyAndCastOr\<close> returns the caller's
  default whenever the parameter is falsy: missing, but also \<open>null\<close>, \<open>false\<close>, \<open>0\<close>,
  \<open>NaN\<close> and the empty string.  It fails with an InputError when the parameter is
  truthy and not a string.  It fails with an InputError for a string that is not a
  non-negative integer: a text with a character that no numeric literal contains, a
  minus sign before the decimal digits of a value from 1 to below \<open>2 ^ 53\<close>, and in
  general a non-empty string that is not a text of decimal digits and that \<open>Number\<close>
  does not convert to a non-negative integer.  Nothing is said here of the texts other
  than decimal digits that \<open>Number\<close> does convert to a non-negative integer.
\<close>

theorem verifyAndCastOr_cases:
  "(\<not> truthy str \<longrightarrow> verifyAndCastOr name str d = Inr d)
   \<and> (truthy str \<and> (\<forall>s. str \<noteq> Str s) \<longrightarrow>
        verifyAndCastOr name str d =
          Inl (HttpError 400
                 (''Incorrect argument quantity or type passed in for '' @ name @ '' query param'')))
   \<and> (c \<in> set s \<and> \<not> isNumericLiteralChar c \<longrightarrow>
        verifyAndCastOr name (Str s) d =
          Inl (HttpError 400 (name @ '' query param is an invalid number'')))
   \<and> (isNonNegativeDecimalInteger ds \<and> 0 < digitsValue 10 ds \<and> digitsValue 10 ds < 2 ^ 53 \<longrightarrow>
        verifyAndCastOr name (Str (CHR ''-'' # ds)) d =
          Inl (HttpError 400 (name @ '' query param is an invalid number'')))
   \<and> (s \<noteq> [] \<and> \<not> isNonNegativeDecimalInteger s
        \<and> \<not> (Number_isInteger (Number s) \<and> \<not> js_less (Number s) (Finite 0)) \<longrightarrow>
        verifyAndCastOr name (Str s) d =
          Inl (HttpError 400 (name @ '' query param is an invalid number'')))"
proof (intro conjI impI)
  show "verifyAndCastOr name str d = Inr d" if "\<not> truthy str"
    using that by (simp add: verifyAndCastOr_def)
  show "verifyAndCastOr name str d =
          Inl (HttpError 400
                 (''Incorrect argument quantity or type passed in for '' @ name @ '' query param''))"
    if "truthy str \<and> (\<forall>s. str \<noteq> Str s)"
    using that by (cases str) (simp_all add: verifyAndCastOr_def BadRequest_def)
  show "verifyAndCastOr name (Str s) d =
          Inl (HttpError 400 (name @ '' query param is an invalid number''))"
    if "c \<in> set s \<and> \<not> isNumericLiteralChar c"
  proof -
    from that have "Number s = NaN" using Number_not_numeric by blast
    moreover from that have "s \<noteq> []" by auto
    ultimately show ?thesis
      by (simp add: verifyAndCastOr_def parseNumberOrThrow_def BadRequest_def)
  qed
  show "verifyAndCastOr name (Str (CHR ''-'' # ds)) d =
          Inl (HttpError 400 (name @ '' query param is an invalid number''))"
    if "isNonNegativeDecimalInteger ds \<and> 0 < digitsValue 10 ds \<and> digitsValue 10 ds < 2 ^ 53"
  proof -
    from that have "Number (CHR ''-'' # ds) = Finite (- of_int (digitsValue 10 ds))"
      by (simp add: isNonNegativeDecimalInteger_def Number_negative)
    then show ?thesis
      using that by (simp add: verifyAndCastOr_def parseNumberOrThrow_def BadRequest_def)
  qed
  show "verifyAndCastOr name (Str s) d =
          Inl (HttpError 400 (name @ '' query param is an invalid number''))"
    if "s \<noteq> [] \<and> \<not> isNonNegativeDecimalInteger s
        \<and> \<not> (Number_isInteger (Number s) \<and> \<not> js_less (Number s) (Finite 0))"
    using that by (auto simp: verifyAndCastOr_def parseNumberOrThrow_def BadRequest_def Let_def)
qed

text \<open>
  Witness for C10: the parameter missing, an array, the texts \<open>12z\<close>, \<open>-1\<close> and
  \<open>abc\<close>.
\<close>

theorem verifyAndCastOr_cases_witness:
  "\<not> truthy Undefined
   \<and> verifyAndCastOr ''depth'' Undefined (Some (Finite 7)) = Inr (Some (Finite 7))
   \<and> truthy (Arr [Str ''1'']) \<and> (\<forall>s. Arr [Str ''1''] \<noteq> Str s)
   \<and> verifyAndCastOr ''depth'' (Arr [Str ''1'']) (Some (Finite 7)) =
       Inl (HttpError 400 ''Incorrect argument quantity or type passed in for depth query param'')
   \<and> CHR ''z'' \<in> set ''12z'' \<and> \<not> isNumericLiteralChar CHR ''z''
   \<and> verifyAndCastOr ''depth'' (Str ''12z'') (Some (Finite 7)) =
       Inl (HttpError 400 ''depth query param is an invalid number'')
   \<and> isNonNegativeDecimalInteger ''1'' \<and> 0 < digitsValue 10 ''1''
   \<and> digitsValue 10 ''1'' < 2 ^ 53
   \<and> verifyAndCastOr ''depth'' (Str ''-1'') (Some (Finite 7)) =
       Inl (HttpError 400 ''depth query param is an invalid number'')
   \<and> ''abc'' \<noteq> [] \<and> \<not> isNonNegativeDecimalInteger ''abc''
   \<and> \<not> Number_isInteger (Number ''abc'')
   \<and> verifyAndCastOr ''depth'' (Str ''abc'') (Some (Finite 7)) =
       Inl (HttpError 400 ''depth query param is an invalid number'')"
proof -
  have z: "CHR ''z'' \<in> set ''12z''" "\<not> isNumericLiteralChar CHR ''z''"
    by (simp_all add: isNumericLiteralChar_def isDigitOf_def digitValue_def
        isStrWhiteSpaceChar_def)
  have m: "isNonNegativeDecimalInteger ''1''" "digitsValue 10 ''1'' = 1"
    by (simp_all add: isNonNegativeDecimalInteger_def isDigitOf_def digitValue_def
        digitsValue_def)
  have a: "\<not> isNonNegativeDecimalInteger ''abc''"
    by (simp add: isNonNegativeDecimalInteger_def isDigitOf_def digitValue_def)
  show ?thesis
    using verifyAndCastOr_cases [where str = Undefined and name = "''depth''"
        and d = "Some (Finite 7)" and c = "CHR ''z''" and s = "''12z''" and ds = "''1''"]
      verifyAndCastOr_cases [where str = "Arr [Str ''1'']" and name = "''depth''"
        and d = "Some (Finite 7)" and c = "CHR ''z''" and s = "''abc''" and ds = "''1''"]
    by (simp add: z m a Number_text_example)
qed

text \<open>
  Counterexample to C10 as stated: the parameter is present, with the number \<open>0\<close> as its
  value, which is not a string; \<open>verifyAndCastOr\<close> does not fail, it returns the default.
  It does the same for the empty string, which is not a text of decimal digits.
\<close>

theorem verifyAndCastOr_counterexample:
  "Num (Finite 0) \<noteq> Undefined
   \<and> verifyAndCastOr ''depth'' (Num (Finite 0)) (Some (Finite 7)) = Inr (Some (Finite 7))
   \<and> \<not> isInputError (verifyAndCastOr ''depth'' (Num (Finite 0)) (Some (Finite 7)))
   \<and> \<not> isNonNegativeDecimalInteger []
   \<and> verifyAndCastOr ''depth'' (Str []) (Some (Finite 7)) = Inr (Some (Finite 7))"
  by (simp add: verifyAndCastOr_def isNonNegativeDecimalInteger_def)

section \<open>The transaction-error middleware and the guard\<close>

text \<open>
  C5.  When the headers have not been sent and the error has the transaction-fault
  shape, the middleware sets status 500 and sends the body with the six fields
  \<open>code, error, data, transaction, cause, stack\<close>, the last five read from the error,
  and does not call \<open>next\<close>.  In every other case the response stays as it is and the
  error is handed to \<open>next\<close>, unchanged.  So \<open>next\<close> is left uncalled if and only if
  the headers were unsent and the error has the shape.
\<close>

theorem txErrorMiddleware_cases:
  "(\<not> headersSent (res x) \<and> isTx err = Some e \<longrightarrow>
      txErrorMiddleware isTx err x =
        x\<lparr>res := (res x)\<lparr>statusCode := 500,
                          body := Some (Obj [(''code'', Num (Finite 500)), (''error'', error e),
                                             (''data'', data e), (''transaction'', transaction e),
                                             (''cause'', cause e), (''stack'', stack e)]),
                          headersSent := True\<rparr>\<rparr>)
   \<and> (headersSent (res x) \<or> isTx err = None \<longrightarrow>
      txErrorMiddleware isTx err x = x\<lparr>nextCalls := nextCalls x @ [err]\<rparr>)
   \<and> (nextCalls (txErrorMiddleware isTx err x) = nextCalls x
        \<longleftrightarrow> \<not> headersSent (res x) \<and> isTx err \<noteq> None)"
  by (auto simp: txErrorMiddleware_def next_call_def send_def status_def)

text \<open>
  Witness for C5: a transaction fault on a fresh response is answered with status 500;
  the same fault after the headers were sent, and an \<open>HttpError\<close> on a fresh response,
  go to \<open>next\<close>.
\<close>

theorem txErrorMiddleware_cases_witness:
  "\<not> headersSent (res freshExchange)
   \<and> txErrorMiddleware isTxLegacyError txFault freshExchange =
       \<lparr>res = \<lparr>headersSent = True, statusCode = 500,
               body = Some (Obj [(''code'', Num (Finite 500)),
                                 (''error'', Str ''Failed to parse a tx.''),
                                 (''data'', Str ''0x00''),
                                 (''transaction'', Undefined),
                                 (''cause'', Str ''createType failed''),
                                 (''stack'', Str ''at parse'')])\<rparr>,
        nextCalls = []\<rparr>
   \<and> headersSent (res sentExchange)
   \<and> txErrorMiddleware isTxLegacyError txFault sentExchange =
       \<lparr>res = res sentExchange, nextCalls = [txFault]\<rparr>
   \<and> isTxLegacyError (HttpError 400 ''bad'') = None
   \<and> txErrorMiddleware isTxLegacyError (HttpError 400 ''bad'') freshExchange =
       \<lparr>res = res freshExchange, nextCalls = [HttpError 400 ''bad'']\<rparr>"
proof -
  have t: "isTxLegacyError txFault =
             Some \<lparr>error = Str ''Failed to parse a tx.'', data = Str ''0x00'',
                   cause = Str ''createType failed'', stack = Str ''at parse'',
                   transaction = Undefined\<rparr>"
    by (simp add: txFault_def field_def)
  show ?thesis
    using txErrorMiddleware_cases [of freshExchange isTxLegacyError txFault] t
      txErrorMiddleware_cases [of sentExchange isTxLegacyError txFault]
      txErrorMiddleware_cases [of freshExchange isTxLegacyError "HttpError 400 ''bad''"]
    by (simp add: freshExchange_def sentExchange_def)
qed

text \<open>
  C6.  The promise of a wrapped handler is never rejected, and the wrapped handler
  never throws.  When the inner handler throws or its promise is rejected with \<open>err\<close>,
  the wrapper is fulfilled and has made one call \<open>next(err)\<close>, after whatever the inner
  handler did.  When the inner handler does not fail, the wrapper adds nothing.
\<close>

theorem catchWrap_delivers_once:
  "(\<forall>err. fst (catchWrap cb req x) \<noteq> Rejected err \<and> fst (catchWrap cb req x) \<noteq> Threw err)
   \<and> (cb req x = (Threw err, x') \<or> cb req x = (Rejected err, x') \<longrightarrow>
        catchWrap cb req x = (Fulfilled, x'\<lparr>nextCalls := nextCalls x' @ [err]\<rparr>))
   \<and> (cb req x = (c, x') \<and> (c = Returned \<or> c = Fulfilled \<or> c = Pending) \<longrightarrow>
        snd (catchWrap cb req x) = x')"
  by (auto simp: catchWrap_def next_call_def split: prod.splits completion.splits)

text \<open>Witness for C6: a handler whose promise is rejected.\<close>

theorem catchWrap_delivers_once_witness:
  "rejectingHandler () freshExchange = (Rejected (Thrown legacyFault), freshExchange)
   \<and> catchWrap rejectingHandler () freshExchange =
       (Fulfilled, \<lparr>res = res freshExchange, nextCalls = [Thrown legacyFault]\<rparr>)"
  using catchWrap_delivers_once
    [of rejectingHandler "()" freshExchange "Thrown legacyFault" freshExchange]
  by (simp add: rejectingHandler_def freshExchange_def)

section \<open>The number sanitizer\<close>

lemma sanitizeNumbers_idem: "sanitizeNumbers (sanitizeNumbers v) = sanitizeNumbers v"
  by (induction v) (auto simp: prod.map_comp comp_def intro!: prod.map_cong0)

lemma shapeOf_sanitizeNumbers: "shapeOf (sanitizeNumbers v) = shapeOf v"
  by (induction v) (auto simp: prod.map_comp comp_def intro!: prod.map_cong0)

text \<open>
  C8.  The sanitizer is a function without a failure path; applying it twice is the same
  as applying it once; it keeps the shape of the value (keys, their order, lengths and
  the order of elements); and plain numbers, strings, booleans and null are left as
  they are.
\<close>

theorem sanitizeNumbers_idempotent_shape:
  "sanitizeNumbers (sanitizeNumbers v) = sanitizeNumbers v
   \<and> shapeOf (sanitizeNumbers v) = shapeOf v
   \<and> sanitizeNumbers PNull = PNull
   \<and> sanitizeNumbers (PBool b) = PBool b
   \<and> sanitizeNumbers (PNumber n) = PNumber n
   \<and> sanitizeNumbers (PString s) = PString s"
  by (simp add: sanitizeNumbers_idem shapeOf_sanitizeNumbers)


end
